theory Spec2Isabelle
  imports Complex_Main "HOL-Library.Product_Lexorder"
begin

section \<open>The rating table\<close>

text \<open>
  The analyser of \<^verbatim>\<open>imdb_analysis_complete.py\<close> works on a pandas frame with one row per
  rated title. The embedding keeps a frame as the list of its rows, in file order.

  \<^item> A Python \<^verbatim>\<open>str\<close> is a \<open>string\<close>; each \<open>char\<close> stands for one code point below 256.
  \<^item> A float is a \<open>real\<close>, and NaN (pandas' absent number) is \<open>None\<close>: sums, quotients and
    square roots are exact, binary rounding is not modelled.
  \<^item> A timestamp is the triple (year, month, day), ordered lexicographically; NaT is \<open>None\<close>.
  \<^item> \<open>Your Rating\<close> is an integer on every row, as the export guarantees; the other
    numeric columns may be absent.
\<close>

type_synonym date = "int \<times> nat \<times> nat"

record rating_row =
  Title_Type :: string
  Your_Rating :: int
  IMDb_Rating :: "real option"
  Year :: "int option"
  Date_Rated :: date
  Release_Date :: "date option"
  Genres :: "string option"
  Directors :: "string option"

text \<open>\<^verbatim>\<open>load_data\<close> adds the columns \<open>Rating Year\<close> and \<open>Content_Age\<close>.\<close>

record frame_row = rating_row +
  Rating_Year :: int
  Content_Age :: "int option"

text \<open>The reading of the clock, \<^verbatim>\<open>datetime.now()\<close>; the loader uses its year only.\<close>

record datetime =
  dt_year :: int
  dt_month :: nat
  dt_day :: nat
  dt_hour :: nat
  dt_minute :: nat
  dt_second :: nat

datatype error =
    IndexError
  | KeyError
  | ZeroDivisionError
  | ValueError
  | TypeError
  | AttributeError
  | UnmodelledPattern

text \<open>
  \<open>UnmodelledPattern\<close> is not an exception of the program: it marks a token that
  \<^verbatim>\<open>str.contains\<close> would compile as a genuine regular expression (see \<open>regex_meta\<close>).
\<close>

definition load_row :: "int \<Rightarrow> rating_row \<Rightarrow> frame_row" where
  "load_row now_year r =
     \<lparr> Title_Type = Title_Type r, Your_Rating = Your_Rating r, IMDb_Rating = IMDb_Rating r,
       Year = Year r, Date_Rated = Date_Rated r, Release_Date = Release_Date r,
       Genres = Genres r, Directors = Directors r,
       Rating_Year = fst (Date_Rated r),
       Content_Age = map_option (\<lambda>y. now_year - y) (Year r) \<rparr>"

definition load_data :: "datetime \<Rightarrow> rating_row list \<Rightarrow> frame_row list" where
  "load_data now rows = map (load_row (dt_year now)) rows"

section \<open>Strings: strip, split, contains\<close>

text \<open>\<^verbatim>\<open>str.isspace\<close> on the code points below 256.\<close>

definition is_space :: "char \<Rightarrow> bool" where
  "is_space c =
     (let n = (of_char c :: nat)
      in (9 \<le> n \<and> n \<le> 13) \<or> (28 \<le> n \<and> n \<le> 32) \<or> n = 133 \<or> n = 160)"

definition strip :: "string \<Rightarrow> string" where
  "strip s = rev (dropWhile is_space (rev (dropWhile is_space s)))"

text \<open>\<^verbatim>\<open>s.split(sep)\<close> for a one-character separator: one more piece than separators.\<close>

fun py_split :: "char \<Rightarrow> string \<Rightarrow> string list" where
  "py_split sep [] = [[]]"
| "py_split sep (c # cs) =
     (if c = sep then [] # py_split sep cs
      else (case py_split sep cs of
              [] \<Rightarrow> [[c]]
            | seg # segs \<Rightarrow> (c # seg) # segs))"

text \<open>
  The body of the two extraction loops (lines 93--96 and 126--129):
  \<^verbatim>\<open>for directors in self.df['Directors'].fillna(''):
      if directors:
          directors_split = [d.strip() for d in str(directors).split(',')]\<close>
\<close>

definition split_field :: "string option \<Rightarrow> string list" where
  "split_field fld =
     (case fld of
        None \<Rightarrow> []
      | Some s \<Rightarrow> if s = [] then [] else map strip (py_split CHR '','' s))"

definition token_list :: "string option list \<Rightarrow> string list" where
  "token_list col = concat (map split_field col)"

text \<open>
  \<^verbatim>\<open>Counter\<close>: a dictionary from token to count, in order of first insertion.
\<close>

fun counter_add :: "(string \<times> nat) list \<Rightarrow> string \<Rightarrow> (string \<times> nat) list" where
  "counter_add [] t = [(t, 1)]"
| "counter_add ((k, c) # kcs) t =
     (if k = t then (k, Suc c) # kcs else (k, c) # counter_add kcs t)"

definition Counter :: "string list \<Rightarrow> (string \<times> nat) list" where
  "Counter ts = fold (\<lambda>t acc. counter_add acc t) ts []"

text \<open>
  \<^verbatim>\<open>most_common(n)\<close> is \<^verbatim>\<open>sorted(items, key=count, reverse=True)[:n]\<close>: a stable sort,
  so tokens of equal count keep their insertion order.
\<close>

definition most_common :: "nat \<Rightarrow> (string \<times> nat) list \<Rightarrow> (string \<times> nat) list" where
  "most_common n cnt = take n (sort_key (\<lambda>kc. - int (snd kc)) cnt)"

text \<open>
  \<^verbatim>\<open>Series.str.contains(pat, na=False)\<close> searches each field for the regular expression
  \<open>pat\<close>. The embedding covers the patterns made of literal characters and dots (a dot
  matches any character but a newline); a pattern with another special character of
  \<^verbatim>\<open>re\<close> is outside the fragment.
\<close>

definition regex_meta :: "char \<Rightarrow> bool" where
  "regex_meta c = (c \<in> set ''^$*+?{}[]|()'' \<or> c = CHR 0x5C)"

fun match_here :: "string \<Rightarrow> string \<Rightarrow> bool" where
  "match_here [] s = True"
| "match_here (p # ps) [] = False"
| "match_here (p # ps) (c # cs) =
     ((if p = CHR ''.'' then c \<noteq> CHR 0x0A else p = c) \<and> match_here ps cs)"

fun re_search :: "string \<Rightarrow> string \<Rightarrow> bool" where
  "re_search pat [] = match_here pat []"
| "re_search pat (c # cs) = (match_here pat (c # cs) \<or> re_search pat cs)"

text \<open>
  The accessor \<^verbatim>\<open>.str\<close> exists on a column of strings only: a column with no value on
  any row of a non-empty frame is read as a column of floats, and the accessor raises
  \<open>AttributeError\<close>. \<open>df\<close> is the frame the column belongs to, \<open>sub\<close> the rows searched.
\<close>

definition str_accessor_ok :: "(frame_row \<Rightarrow> string option) \<Rightarrow> frame_row list \<Rightarrow> bool" where
  "str_accessor_ok col df = (df = [] \<or> list_ex (\<lambda>r. col r \<noteq> None) df)"

definition df_str_contains ::
  "(frame_row \<Rightarrow> string option) \<Rightarrow> string \<Rightarrow> frame_row list \<Rightarrow> frame_row list
     \<Rightarrow> error + frame_row list" where
  "df_str_contains col pat df sub =
     (if \<not> str_accessor_ok col df then Inl AttributeError
      else if list_ex regex_meta pat then Inl UnmodelledPattern
      else Inr (filter (\<lambda>r. case col r of None \<Rightarrow> False | Some s \<Rightarrow> re_search pat s) sub))"

section \<open>Numbers: mean, deviation, correlation, rounding\<close>

definition py_div :: "real \<Rightarrow> real \<Rightarrow> error + real" where
  "py_div a b = (if b = 0 then Inl ZeroDivisionError else Inr (a / b))"

definition mean :: "real list \<Rightarrow> real option" where
  "mean xs = (if xs = [] then None else Some (sum_list xs / real (length xs)))"

text \<open>\<^verbatim>\<open>Series.mean()\<close> skips the absent values.\<close>

definition nanmean :: "real option list \<Rightarrow> real option" where
  "nanmean xs = mean (map the (filter (\<lambda>x. x \<noteq> None) xs))"

text \<open>\<^verbatim>\<open>Series.std()\<close>: the sample deviation (\<open>ddof = 1\<close>), NaN below two values.\<close>

definition std :: "real list \<Rightarrow> real option" where
  "std xs =
     (if length xs < 2 then None
      else (let m = sum_list xs / real (length xs)
            in Some (sqrt (sum_list (map (\<lambda>x. (x - m)\<^sup>2) xs) / real (length xs - 1)))))"

text \<open>
  \<^verbatim>\<open>Series.corr\<close> (Pearson): the pairs with an absent member are dropped, then
  \<^verbatim>\<open>numpy.corrcoef\<close> divides the covariance by the two deviations and clips to \<open>[-1, 1]\<close>;
  with fewer than two pairs or a constant column the quotient is \<open>0/0\<close>, NaN.
\<close>

definition valid_pairs :: "frame_row list \<Rightarrow> (real \<times> real) list" where
  "valid_pairs df =
     concat (map (\<lambda>r. case IMDb_Rating r of None \<Rightarrow> [] | Some v \<Rightarrow> [(real_of_int (Your_Rating r), v)]) df)"

definition corrcoef :: "(real \<times> real) list \<Rightarrow> real option" where
  "corrcoef ps =
     (if length ps < 2 then None
      else (let n = real (length ps);
                mx = sum_list (map fst ps) / n;
                my = sum_list (map snd ps) / n;
                cxy = sum_list (map (\<lambda>p. (fst p - mx) * (snd p - my)) ps) / (n - 1);
                cxx = sum_list (map (\<lambda>p. (fst p - mx)\<^sup>2) ps) / (n - 1);
                cyy = sum_list (map (\<lambda>p. (snd p - my)\<^sup>2) ps) / (n - 1)
            in if cxx = 0 \<or> cyy = 0 then None
               else Some (max (- 1) (min 1 (cxy / sqrt cxx / sqrt cyy)))))"

definition corr :: "frame_row list \<Rightarrow> real option" where
  "corr df = corrcoef (valid_pairs df)"

text \<open>\<^verbatim>\<open>round(2)\<close>: \<^verbatim>\<open>rint(x * 100) / 100\<close>, halves to the even neighbour; NaN stays NaN.\<close>

definition rint :: "real \<Rightarrow> int" where
  "rint x =
     (let f = \<lfloor>x\<rfloor>; d = x - of_int f
      in if d < 1 / 2 then f else if 1 / 2 < d then f + 1 else if even f then f else f + 1)"

definition round2 :: "real option \<Rightarrow> real option" where
  "round2 v = map_option (\<lambda>x. of_int (rint (x * 100)) / 100) v"

text \<open>\<^verbatim>\<open>Series.mode()\<close>: the most frequent values, ascending.\<close>

definition mode_values :: "int list \<Rightarrow> int list" where
  "mode_values xs =
     (let top = fold max (map (count_list xs) xs) 0
      in filter (\<lambda>v. count_list xs v = top) (sort (remdups xs)))"

text \<open>\<^verbatim>\<open>Series.max()\<close> on a column of timestamps: NaT on the empty column.\<close>

definition date_max :: "date list \<Rightarrow> date option" where
  "date_max ds = (case ds of [] \<Rightarrow> None | d # rest \<Rightarrow> Some (fold max rest d))"

text \<open>\<^verbatim>\<open>Series.idxmax()\<close>: the label of the first largest value, absent values skipped.\<close>

fun idxmax_from :: "int \<Rightarrow> real \<Rightarrow> (int \<times> real option) list \<Rightarrow> int" where
  "idxmax_from k v [] = k"
| "idxmax_from k v ((k', None) # rest) = idxmax_from k v rest"
| "idxmax_from k v ((k', Some v') # rest) =
     (if v < v' then idxmax_from k' v' rest else idxmax_from k v rest)"

fun idxmax :: "(int \<times> real option) list \<Rightarrow> error + int" where
  "idxmax [] = Inl ValueError"
| "idxmax ((k, None) # rest) = idxmax rest"
| "idxmax ((k, Some v) # rest) = Inr (idxmax_from k v rest)"

section \<open>The aggregations\<close>

subsection \<open>\<^verbatim>\<open>basic_statistics\<close>\<close>

record stats =
  total_entries :: nat
  movies :: nat
  tv_series :: nat
  tv_episodes :: nat
  avg_rating :: "real option"
  most_common_rating :: int
  imdb_correlation :: "real option"

text \<open>
  The dictionary is built entry by entry, so \<^verbatim>\<open>mode().iloc[0]\<close> raises on the empty frame
  before the correlation is computed; the three printed shares divide by
  \<open>total_entries\<close>.
\<close>

definition basic_statistics :: "frame_row list \<Rightarrow> error + stats" where
  "basic_statistics df =
     (case mode_values (map Your_Rating df) of
        [] \<Rightarrow> Inl IndexError
      | m # _ \<Rightarrow>
          (let st = \<lparr> total_entries = length df,
                      movies = length (filter (\<lambda>r. Title_Type r = ''Movie'') df),
                      tv_series = length (filter (\<lambda>r. Title_Type r = ''TV Series'') df),
                      tv_episodes = length (filter (\<lambda>r. Title_Type r = ''TV Episode'') df),
                      avg_rating = mean (map (\<lambda>r. real_of_int (Your_Rating r)) df),
                      most_common_rating = m,
                      imdb_correlation = corr df \<rparr>
           in case py_div (real (movies st)) (real (total_entries st)) of
                Inl e \<Rightarrow> Inl e
              | Inr _ \<Rightarrow>
                  (case py_div (real (tv_series st)) (real (total_entries st)) of
                     Inl e \<Rightarrow> Inl e
                   | Inr _ \<Rightarrow>
                       (case py_div (real (tv_episodes st)) (real (total_entries st)) of
                          Inl e \<Rightarrow> Inl e
                        | Inr _ \<Rightarrow> Inr st))))"

subsection \<open>\<^verbatim>\<open>yearly_evolution\<close>\<close>

text \<open>
  One row per rating year, ascending. The columns are named \<open>Count\<close>, \<open>Avg_Your_Rating\<close>,
  ... in the source; \<open>yr\<close> is the index and \<open>y_Count\<close> the column \<open>Count\<close>.
\<close>

record yearly_row =
  yr :: int
  y_Count :: nat
  Avg_Your_Rating :: "real option"
  Std_Your_Rating :: "real option"
  Avg_IMDb_Rating :: "real option"
  Avg_Content_Year :: "real option"
  Avg_Content_Age :: "real option"

definition year_group :: "frame_row list \<Rightarrow> int \<Rightarrow> frame_row list" where
  "year_group df y = filter (\<lambda>r. Rating_Year r = y) df"

definition rating_years :: "frame_row list \<Rightarrow> int list" where
  "rating_years df = sort (remdups (map Rating_Year df))"

definition yearly_agg :: "frame_row list \<Rightarrow> int \<Rightarrow> yearly_row" where
  "yearly_agg df y =
     (let g = year_group df y; rs = map (\<lambda>r. real_of_int (Your_Rating r)) g
      in \<lparr> yr = y,
           y_Count = length g,
           Avg_Your_Rating = round2 (mean rs),
           Std_Your_Rating = round2 (std rs),
           Avg_IMDb_Rating = round2 (nanmean (map IMDb_Rating g)),
           Avg_Content_Year = round2 (nanmean (map (\<lambda>r. map_option real_of_int (Year r)) g)),
           Avg_Content_Age = round2 (nanmean (map (\<lambda>r. map_option real_of_int (Content_Age r)) g)) \<rparr>)"

definition yearly_evolution :: "frame_row list \<Rightarrow> yearly_row list" where
  "yearly_evolution df = map (yearly_agg df) (rating_years df)"

subsection \<open>\<^verbatim>\<open>analyze_directors\<close>\<close>

text \<open>\<open>d_Count\<close> is the key \<open>Count\<close> of the source's dictionary.\<close>

record director_row =
  Director :: string
  d_Count :: nat
  Avg_Rating :: "real option"
  Std_Rating :: "real option"
  Latest_Work :: date

definition top_directors :: "frame_row list \<Rightarrow> (string \<times> nat) list" where
  "top_directors df = most_common 15 (Counter (token_list (map Directors df)))"

text \<open>
  The loop of lines 103--112. \<^verbatim>\<open>strftime\<close> on NaT, the maximum of no date, raises
  \<open>ValueError\<close>.
\<close>

fun director_loop :: "frame_row list \<Rightarrow> (string \<times> nat) list \<Rightarrow> error + director_row list" where
  "director_loop df [] = Inr []"
| "director_loop df ((director, count) # rest) =
     (if director \<noteq> [] \<and> 5 \<le> count then
        (case df_str_contains Directors director df df of
           Inl e \<Rightarrow> Inl e
         | Inr director_works \<Rightarrow>
             (case date_max (map Date_Rated director_works) of
                None \<Rightarrow> Inl ValueError
              | Some latest \<Rightarrow>
                  (case director_loop df rest of
                     Inl e \<Rightarrow> Inl e
                   | Inr rows \<Rightarrow>
                       Inr (\<lparr> Director = director,
                              d_Count = count,
                              Avg_Rating = mean (map (\<lambda>r. real_of_int (Your_Rating r)) director_works),
                              Std_Rating = std (map (\<lambda>r. real_of_int (Your_Rating r)) director_works),
                              Latest_Work = latest \<rparr> # rows))))
      else director_loop df rest)"

definition director_analysis :: "frame_row list \<Rightarrow> error + director_row list" where
  "director_analysis df = director_loop df (top_directors df)"

text \<open>
  \<^verbatim>\<open>pd.DataFrame([])\<close> has no column, so \<^verbatim>\<open>sort_values('Avg_Rating')\<close> raises
  \<open>KeyError\<close> when no director passed the filter.
\<close>

definition analyze_directors :: "frame_row list \<Rightarrow> error + director_row list" where
  "analyze_directors df =
     (case director_analysis df of
        Inl e \<Rightarrow> Inl e
      | Inr rows \<Rightarrow> if rows = [] then Inl KeyError else Inr rows)"

subsection \<open>\<^verbatim>\<open>analyze_genres\<close>\<close>

text \<open>A printed line of the genre report: genre, count, share of the frame, mean rating.\<close>

record genre_line =
  Genre :: string
  g_Count :: nat
  g_percentage :: real
  g_avg_rating :: "real option"

definition top_genres :: "frame_row list \<Rightarrow> (string \<times> nat) list" where
  "top_genres df = most_common 15 (Counter (token_list (map Genres df)))"

fun genre_loop :: "frame_row list \<Rightarrow> (string \<times> nat) list \<Rightarrow> error + genre_line list" where
  "genre_loop df [] = Inr []"
| "genre_loop df ((genre, count) # rest) =
     (if genre \<noteq> [] then
        (case df_str_contains Genres genre df df of
           Inl e \<Rightarrow> Inl e
         | Inr genre_works \<Rightarrow>
             (case py_div (real count) (real (length df)) of
                Inl e \<Rightarrow> Inl e
              | Inr q \<Rightarrow>
                  (case genre_loop df rest of
                     Inl e \<Rightarrow> Inl e
                   | Inr ls \<Rightarrow>
                       Inr (\<lparr> Genre = genre,
                              g_Count = count,
                              g_percentage = q * 100,
                              g_avg_rating = mean (map (\<lambda>r. real_of_int (Your_Rating r)) genre_works) \<rparr> # ls))))
      else genre_loop df rest)"

definition genre_report :: "frame_row list \<Rightarrow> error + genre_line list" where
  "genre_report df = genre_loop df (top_genres df)"

definition analyze_genres :: "frame_row list \<Rightarrow> error + (string \<times> nat) list" where
  "analyze_genres df =
     (case genre_report df of Inl e \<Rightarrow> Inl e | Inr _ \<Rightarrow> Inr (top_genres df))"

subsection \<open>\<^verbatim>\<open>rating_patterns\<close>\<close>

text \<open>\<^verbatim>\<open>value_counts().sort_index()\<close>: the observed ratings, ascending, with their counts.\<close>

definition rating_dist :: "frame_row list \<Rightarrow> (int \<times> nat) list" where
  "rating_dist df =
     (let rs = map Your_Rating df in map (\<lambda>v. (v, count_list rs v)) (sort (remdups rs)))"

fun dist_percentages :: "nat \<Rightarrow> (int \<times> nat) list \<Rightarrow> error + real list" where
  "dist_percentages n [] = Inr []"
| "dist_percentages n ((rating, count) # rest) =
     (case py_div (real count) (real n) of
        Inl e \<Rightarrow> Inl e
      | Inr q \<Rightarrow>
          (case dist_percentages n rest of
             Inl e \<Rightarrow> Inl e
           | Inr qs \<Rightarrow> Inr (q * 100 # qs)))"

record rating_report =
  dist :: "(int \<times> nat) list"
  dist_pct :: "real list"
  high_ratings :: nat
  high_pct :: real
  low_ratings :: nat
  low_pct :: real

definition rating_patterns_report :: "frame_row list \<Rightarrow> error + rating_report" where
  "rating_patterns_report df =
     (case dist_percentages (length df) (rating_dist df) of
        Inl e \<Rightarrow> Inl e
      | Inr pcts \<Rightarrow>
          (let high = length (filter (\<lambda>r. 8 \<le> Your_Rating r) df);
               low = length (filter (\<lambda>r. Your_Rating r \<le> 5) df)
           in case py_div (real high) (real (length df)) of
                Inl e \<Rightarrow> Inl e
              | Inr hq \<Rightarrow>
                  (case py_div (real low) (real (length df)) of
                     Inl e \<Rightarrow> Inl e
                   | Inr lq \<Rightarrow>
                       Inr \<lparr> dist = rating_dist df, dist_pct = pcts,
                             high_ratings = high, high_pct = hq * 100,
                             low_ratings = low, low_pct = lq * 100 \<rparr>)))"

definition rating_patterns :: "frame_row list \<Rightarrow> error + (int \<times> nat) list" where
  "rating_patterns df =
     (case rating_patterns_report df of Inl e \<Rightarrow> Inl e | Inr rep \<Rightarrow> Inr (dist rep))"

subsection \<open>\<^verbatim>\<open>content_age_analysis\<close>\<close>

datatype age_label = Very_Recent | Recent | Older | Classic | Very_Classic

definition age_bins :: "int list" where
  "age_bins = [- 1, 5, 15, 30, 50, 100]"

definition age_labels :: "age_label list" where
  "age_labels = [Very_Recent, Recent, Older, Classic, Very_Classic]"

text \<open>\<^verbatim>\<open>pd.cut\<close> with its default \<open>right=True\<close>: the label of the interval \<open>(lo, hi]\<close>
  that holds the value, and no label outside the bins.\<close>

fun pd_cut :: "int list \<Rightarrow> 'l list \<Rightarrow> int \<Rightarrow> 'l option" where
  "pd_cut (lo # hi # bins) (l # ls) x =
     (if lo < x \<and> x \<le> hi then Some l else pd_cut (hi # bins) ls x)"
| "pd_cut _ _ _ = None"

definition Age_Group :: "frame_row \<Rightarrow> age_label option" where
  "Age_Group r = (case Content_Age r of None \<Rightarrow> None | Some a \<Rightarrow> pd_cut age_bins age_labels a)"

definition age_bucket :: "frame_row list \<Rightarrow> age_label \<Rightarrow> frame_row list" where
  "age_bucket df l = filter (\<lambda>r. Age_Group r = Some l) df"

text \<open>
  The grouping is by a categorical column, so every label has a row, an empty bucket
  with count 0 and mean NaN; a row of the frame with no label is in no group.
\<close>

definition content_age_analysis :: "frame_row list \<Rightarrow> (age_label \<times> nat \<times> real option) list" where
  "content_age_analysis df =
     map (\<lambda>l. (l, length (age_bucket df l),
                round2 (mean (map (\<lambda>r. real_of_int (Your_Rating r)) (age_bucket df l)))))
         age_labels"

section \<open>Insights, chart data and the pipeline\<close>

subsection \<open>\<^verbatim>\<open>generate_insights\<close>\<close>

text \<open>A comparison with NaN is false: \<^verbatim>\<open>abs(nan) > 0.7\<close> does not hold.\<close>

definition abs_gt :: "real option \<Rightarrow> real \<Rightarrow> bool" where
  "abs_gt c t = (case c of None \<Rightarrow> False | Some x \<Rightarrow> t < \<bar>x\<bar>)"

definition alignment_label :: "real option \<Rightarrow> string" where
  "alignment_label c =
     (if abs_gt c (7 / 10) then ''Strong''
      else if abs_gt c (4 / 10) then ''Moderate''
      else ''Weak'')"

definition generosity_label :: "real \<Rightarrow> string" where
  "generosity_label p =
     (if 60 < p then ''Very generous''
      else if 40 < p then ''Moderately generous''
      else ''Selective'')"

text \<open>
  The returned dictionary, with \<open>i_avg_rating\<close> for its key \<open>avg_rating\<close>, and the
  alignment label that the method prints.
\<close>

record insights =
  i_avg_rating :: "real option"
  correlation :: "real option"
  generosity :: real
  style :: string
  peak_volume_year :: int
  peak_quality_year :: int
  alignment :: string

text \<open>\<open>yearly_stats\<close> is the attribute that \<^verbatim>\<open>yearly_evolution\<close> sets: \<open>None\<close> before.\<close>

definition generate_insights :: "frame_row list \<Rightarrow> yearly_row list option \<Rightarrow> error + insights" where
  "generate_insights df yearly_stats =
     (case basic_statistics df of
        Inl e \<Rightarrow> Inl e
      | Inr st \<Rightarrow>
          (case py_div (real (length (filter (\<lambda>r. 7 \<le> Your_Rating r) df))) (real (length df)) of
             Inl e \<Rightarrow> Inl e
           | Inr q \<Rightarrow>
               (case yearly_stats of
                  None \<Rightarrow> Inl TypeError
                | Some ys \<Rightarrow>
                    (case idxmax (map (\<lambda>y. (yr y, Some (real (y_Count y)))) ys) of
                       Inl e \<Rightarrow> Inl e
                     | Inr pv \<Rightarrow>
                         (case idxmax (map (\<lambda>y. (yr y, Avg_Your_Rating y)) ys) of
                            Inl e \<Rightarrow> Inl e
                          | Inr pq \<Rightarrow>
                              Inr \<lparr> i_avg_rating = avg_rating st,
                                    correlation = imdb_correlation st,
                                    generosity = q * 100,
                                    style = generosity_label (q * 100),
                                    peak_volume_year = pv,
                                    peak_quality_year = pq,
                                    alignment = alignment_label (imdb_correlation st) \<rparr>)))))"

subsection \<open>The data of the charts\<close>

text \<open>
  Of \<^verbatim>\<open>create_visualizations\<close> the embedding keeps what the method computes from the
  frame for panels 6, 7 and 8; the drawing itself is the plotting library's. The two
  shares are the guarded ones:
  \<^verbatim>\<open>percentage = (genre_count / total_count) * 100 if total_count > 0 else 0\<close>
\<close>

definition guarded_pct :: "nat \<Rightarrow> nat \<Rightarrow> error + real" where
  "guarded_pct genre_count total_count =
     (if 0 < total_count then
        (case py_div (real genre_count) (real total_count) of
           Inl e \<Rightarrow> Inl e
         | Inr q \<Rightarrow> Inr (q * 100))
      else Inr 0)"

definition watchlist :: "string list" where
  "watchlist = [''Drama'', ''Action'', ''Sci-Fi'', ''Comedy'', ''Thriller'']"

fun genre_year_loop :: "frame_row list \<Rightarrow> string \<Rightarrow> int list \<Rightarrow> error + real list" where
  "genre_year_loop df genre [] = Inr []"
| "genre_year_loop df genre (year # years) =
     (let year_data = year_group df year
      in case df_str_contains Genres genre df year_data of
           Inl e \<Rightarrow> Inl e
         | Inr hits \<Rightarrow>
             (case guarded_pct (length hits) (length year_data) of
                Inl e \<Rightarrow> Inl e
              | Inr p \<Rightarrow>
                  (case genre_year_loop df genre years of
                     Inl e \<Rightarrow> Inl e
                   | Inr ps \<Rightarrow> Inr (p # ps))))"

fun genre_by_year_loop :: "frame_row list \<Rightarrow> string list \<Rightarrow> error + (string \<times> real list) list" where
  "genre_by_year_loop df [] = Inr []"
| "genre_by_year_loop df (genre # genres) =
     (case genre_year_loop df genre (rating_years df) of
        Inl e \<Rightarrow> Inl e
      | Inr ps \<Rightarrow>
          (case genre_by_year_loop df genres of
             Inl e \<Rightarrow> Inl e
           | Inr rest \<Rightarrow> Inr ((genre, ps) # rest)))"

fun generosity_loop :: "frame_row list \<Rightarrow> int list \<Rightarrow> error + real list" where
  "generosity_loop df [] = Inr []"
| "generosity_loop df (year # years) =
     (let year_data = year_group df year
      in case guarded_pct (length (filter (\<lambda>r. 8 \<le> Your_Rating r) year_data)) (length year_data) of
           Inl e \<Rightarrow> Inl e
         | Inr g \<Rightarrow>
             (case generosity_loop df years of
                Inl e \<Rightarrow> Inl e
              | Inr gs \<Rightarrow> Inr (g # gs)))"

fun cumsum :: "nat \<Rightarrow> nat list \<Rightarrow> nat list" where
  "cumsum acc [] = []"
| "cumsum acc (x # xs) = (acc + x) # cumsum (acc + x) xs"

record chart_data =
  genre_by_year :: "(string \<times> real list) list"
  cumulative_ratings :: "nat list"
  generosity_by_year :: "real list"

definition create_visualizations ::
  "frame_row list \<Rightarrow> yearly_row list option \<Rightarrow> error + chart_data" where
  "create_visualizations df yearly_stats =
     (case yearly_stats of
        None \<Rightarrow> Inl AttributeError
      | Some ys \<Rightarrow>
          (case genre_by_year_loop df watchlist of
             Inl e \<Rightarrow> Inl e
           | Inr gy \<Rightarrow>
               (case generosity_loop df (rating_years df) of
                  Inl e \<Rightarrow> Inl e
                | Inr gen \<Rightarrow>
                    Inr \<lparr> genre_by_year = gy,
                          cumulative_ratings = cumsum 0 (map y_Count ys),
                          generosity_by_year = gen \<rparr>)))"

subsection \<open>\<^verbatim>\<open>run_complete_analysis\<close>\<close>

record result_bundle =
  basic_stats :: stats
  yearly_data :: "yearly_row list"
  director_data :: "director_row list"
  genre_data :: "(string \<times> nat) list"
  insights_data :: insights

text \<open>
  The stages run in the order of the source; the first exception ends the run. The
  rating distribution and the age table are computed and printed, not returned.
\<close>

definition run_complete_analysis :: "datetime \<Rightarrow> rating_row list \<Rightarrow> error + result_bundle" where
  "run_complete_analysis now rows =
     (let df = load_data now rows
      in case basic_statistics df of
           Inl e \<Rightarrow> Inl e
         | Inr st \<Rightarrow>
             (let yearly = yearly_evolution df
              in case analyze_directors df of
                   Inl e \<Rightarrow> Inl e
                 | Inr dd \<Rightarrow>
                     (case analyze_genres df of
                        Inl e \<Rightarrow> Inl e
                      | Inr gd \<Rightarrow>
                          (case rating_patterns df of
                             Inl e \<Rightarrow> Inl e
                           | Inr rp \<Rightarrow>
                               (let age = content_age_analysis df
                                in case generate_insights df (Some yearly) of
                                     Inl e \<Rightarrow> Inl e
                                   | Inr ins \<Rightarrow>
                                       (case create_visualizations df (Some yearly) of
                                          Inl e \<Rightarrow> Inl e
                                        | Inr _ \<Rightarrow>
                                            Inr \<lparr> basic_stats = st, yearly_data = yearly,
                                                  director_data = dd, genre_data = gd,
                                                  insights_data = ins \<rparr>))))))"

section \<open>Tables used as examples\<close>

definition mini_series :: frame_row where
  "mini_series =
     \<lparr> Title_Type = ''TV Mini Series'', Your_Rating = 9, IMDb_Rating = Some (87 / 10),
       Year = Some 2019, Date_Rated = (2020, 3, 14), Release_Date = None,
       Genres = Some ''Drama, History'', Directors = Some ''Johan Renck'',
       Rating_Year = 2020, Content_Age = Some 6 \<rparr>"

definition feature_film :: frame_row where
  "feature_film =
     \<lparr> Title_Type = ''Movie'', Your_Rating = 8, IMDb_Rating = None,
       Year = Some 1999, Date_Rated = (2021, 7, 2), Release_Date = None,
       Genres = Some ''Action, Sci-Fi'', Directors = Some ''Lana Wachowski, Lilly Wachowski'',
       Rating_Year = 2021, Content_Age = Some 26 \<rparr>"

definition clock_2025 :: datetime where
  "clock_2025 =
     \<lparr> dt_year = 2025, dt_month = 6, dt_day = 14, dt_hour = 10, dt_minute = 30, dt_second = 0 \<rparr>"

definition nosferatu :: rating_row where
  "nosferatu =
     \<lparr> Title_Type = ''Movie'', Your_Rating = 8, IMDb_Rating = Some (78 / 10),
       Year = Some 1922, Date_Rated = (2019, 10, 31), Release_Date = None,
       Genres = Some ''Fantasy, Horror'', Directors = Some ''F.W. Murnau'' \<rparr>"

definition preview_title :: rating_row where
  "preview_title =
     \<lparr> Title_Type = ''Movie'', Your_Rating = 7, IMDb_Rating = None,
       Year = Some 2026, Date_Rated = (2025, 6, 1), Release_Date = None,
       Genres = Some ''Drama'', Directors = None \<rparr>"

definition age_5 :: frame_row where
  "age_5 = load_row 2025 (nosferatu \<lparr> Year := Some 2020 \<rparr>)"

definition age_6 :: frame_row where
  "age_6 = load_row 2025 (nosferatu \<lparr> Year := Some 2019 \<rparr>)"

definition no_age :: frame_row where
  "no_age = load_row 2025 (nosferatu \<lparr> Year := None \<rparr>)"


definition three_ratings :: "rating_row list" where
  "three_ratings =
     [\<lparr> Title_Type = ''Movie'', Your_Rating = 9, IMDb_Rating = Some (85 / 10), Year = Some 2010,
        Date_Rated = (2020, 1, 1), Release_Date = None, Genres = Some ''Action, Sci-Fi'',
        Directors = Some ''Christopher Nolan'' \<rparr>,
      \<lparr> Title_Type = ''Movie'', Your_Rating = 7, IMDb_Rating = Some 7, Year = Some 2018,
        Date_Rated = (2020, 6, 1), Release_Date = None, Genres = Some ''Comedy'',
        Directors = None \<rparr>,
      \<lparr> Title_Type = ''TV Series'', Your_Rating = 9, IMDb_Rating = Some 9, Year = None,
        Date_Rated = (2021, 1, 1), Release_Date = None, Genres = None,
        Directors = None \<rparr>]"

text \<open>A film rated in the loaded frame: directors, genres, rating, date of the rating.\<close>

definition rated :: "string \<Rightarrow> string \<Rightarrow> int \<Rightarrow> date \<Rightarrow> frame_row" where
  "rated ds gs rating d =
     load_row 2025
       \<lparr> Title_Type = ''Movie'', Your_Rating = rating, IMDb_Rating = None, Year = Some 2015,
         Date_Rated = d, Release_Date = None, Genres = Some gs, Directors = Some ds \<rparr>"




definition mcg_six :: "frame_row list" where
  "mcg_six =
     [rated ''McG'' ''Action'' 4 (2014, 1, 10),
      rated ''McG'' ''Action'' 4 (2015, 2, 11),
      rated ''McG'' ''Action'' 5 (2016, 3, 12),
      rated ''McG'' ''Action'' 7 (2017, 4, 13),
      rated ''McG'' ''Action'' 7 (2018, 5, 14),
      rated ''Tom McGrath'' ''Animation'' 9 (2022, 6, 15)]"

definition music_two :: "frame_row list" where
  "music_two =
     [rated ''Damien Chazelle'' ''Drama, Music'' 8 (2015, 2, 20),
      rated ''Tom Hooper'' ''Musical'' 4 (2013, 1, 12)]"


section \<open>Auxiliary facts\<close>

subsection \<open>Splitting and counting\<close>

lemma py_split_nonempty: "py_split sep s \<noteq> []"
  by (induction s) (auto split: list.splits)

lemma py_split_concat: "concat (map ((#) sep) (py_split sep s)) = sep # s"
proof (induction s)
  case Nil
  show ?case by simp
next
  case (Cons c cs)
  then show ?case by (cases "py_split sep cs") (auto simp: py_split_nonempty)
qed

lemma py_split_no_sep: "seg \<in> set (py_split sep s) \<Longrightarrow> sep \<notin> set seg"
proof (induction s arbitrary: seg)
  case Nil
  then show ?case by simp
next
  case (Cons c cs)
  then show ?case by (cases "py_split sep cs") (auto split: if_splits)
qed

lemma length_py_split: "length (py_split sep s) = Suc (count_list s sep)"
proof (induction s)
  case Nil
  show ?case by simp
next
  case (Cons c cs)
  then show ?case by (cases "py_split sep cs") auto
qed

lemma strip_prefix: "dropWhile is_space s = strip s @ rev (takeWhile is_space (rev (dropWhile is_space s)))"
proof -
  let ?ys = "dropWhile is_space s"
  have "rev (takeWhile is_space (rev ?ys) @ dropWhile is_space (rev ?ys)) = ?ys"
    by (simp only: takeWhile_dropWhile_id rev_rev_ident)
  then have "rev (dropWhile is_space (rev ?ys)) @ rev (takeWhile is_space (rev ?ys)) = ?ys"
    by (simp only: rev_append)
  then show ?thesis by (simp only: strip_def)
qed

lemma strip_hd: "strip s \<noteq> [] \<Longrightarrow> \<not> is_space (hd (strip s))"
proof -
  assume ne: "strip s \<noteq> []"
  let ?ys = "dropWhile is_space s"
  have "?ys \<noteq> []"
  proof
    assume "?ys = []"
    then have "strip s = []" by (simp only: strip_def rev.simps dropWhile.simps)
    with ne show False by simp
  qed
  then have "\<not> is_space (hd ?ys)" by (rule hd_dropWhile)
  moreover have "hd ?ys = hd (strip s)" using strip_prefix [of s] ne by (metis hd_append2)
  ultimately show ?thesis by simp
qed

lemma strip_last: "strip s \<noteq> [] \<Longrightarrow> \<not> is_space (last (strip s))"
proof -
  assume ne: "strip s \<noteq> []"
  let ?zs = "dropWhile is_space (rev (dropWhile is_space s))"
  have "?zs \<noteq> []" using ne by (simp add: strip_def)
  then have "\<not> is_space (hd ?zs)" by (rule hd_dropWhile)
  moreover have "last (strip s) = hd ?zs" using \<open>?zs \<noteq> []\<close> by (simp add: strip_def last_rev)
  ultimately show ?thesis by simp
qed

lemma strip_fixed: 
  assumes "t = [] \<or> (\<not> is_space (hd t) \<and> \<not> is_space (last t))"
  shows "strip t = t"
proof (cases t)
  case Nil
  then show ?thesis by (simp add: strip_def)
next
  case (Cons c cs)
  then have h: "\<not> is_space (hd t)" and l: "\<not> is_space (last t)" using assms by auto
  have 1: "dropWhile is_space t = t" using Cons h by simp
  obtain y ys where r: "rev t = y # ys" using Cons by (cases "rev t") auto
  have "hd (rev t) = last t" by (rule hd_rev)
  then have "\<not> is_space y" using l r by simp
  then have 2: "dropWhile is_space (rev t) = rev t" using r by simp
  show ?thesis by (simp add: strip_def 1 2)
qed

lemma strip_idem: "strip (strip s) = strip s"
  using strip_fixed [of "strip s"] strip_hd [of s] strip_last [of s] by blast

lemma set_strip: "set (strip s) \<subseteq> set s"
proof
  fix x
  assume "x \<in> set (strip s)"
  then have "x \<in> set (dropWhile is_space (rev (dropWhile is_space s)))" by (simp add: strip_def)
  then have "x \<in> set (rev (dropWhile is_space s))" by (rule set_dropWhileD)
  then have "x \<in> set (dropWhile is_space s)" by simp
  then show "x \<in> set s" by (rule set_dropWhileD)
qed

lemma split_field_token:
  assumes "t \<in> set (split_field fld)"
  shows "strip t = t \<and> CHR '','' \<notin> set t \<and> (t = [] \<or> (\<not> is_space (hd t) \<and> \<not> is_space (last t)))"
proof -
  from assms obtain s seg where s: "fld = Some s" "s \<noteq> []" "seg \<in> set (py_split CHR '','' s)" "t = strip seg"
    by (auto simp: split_field_def split: option.splits if_splits)
  have "CHR '','' \<notin> set seg" using s(3) by (rule py_split_no_sep)
  then have "CHR '','' \<notin> set t" using set_strip [of seg] s(4) by auto
  moreover have "strip t = t" using s(4) strip_idem by simp
  moreover have "t = [] \<or> (\<not> is_space (hd t) \<and> \<not> is_space (last t))"
    using s(4) strip_hd [of seg] strip_last [of seg] by blast
  ultimately show ?thesis by simp
qed


lemma counter_add_map_of:
  "map_of (counter_add acc t) = (map_of acc)(t \<mapsto> (case map_of acc t of None \<Rightarrow> 1 | Some c \<Rightarrow> Suc c))"
  by (induction acc t rule: counter_add.induct) (auto simp: fun_eq_iff)

lemma Counter_snoc: "Counter (ts @ [t]) = counter_add (Counter ts) t"
  by (simp add: Counter_def)


lemma Counter_map_of:
  "map_of (Counter ts) t = (if t \<in> set ts then Some (count_list ts t) else None)"
proof (induction ts rule: rev_induct)
  case Nil
  show ?case by (simp add: Counter_def)
next
  case (snoc x ts)
  then show ?case by (auto simp: Counter_snoc counter_add_map_of)
qed


lemma count_list_concat: "count_list (concat xss) t = sum_list (map (\<lambda>xs. count_list xs t) xss)"
  by (induction xss) auto

subsection \<open>Basic statistics\<close>

lemma fold_max_ge: "(a::nat) \<le> fold max ys a \<and> (\<forall>y\<in>set ys. y \<le> fold max ys a)"
proof (induction ys arbitrary: a)
  case Nil
  show ?case by simp
next
  case (Cons y ys)
  have "max y a \<le> fold max ys (max y a)" using Cons.IH by blast
  moreover have "\<forall>z\<in>set ys. z \<le> fold max ys (max y a)" using Cons.IH by blast
  ultimately show ?case by auto
qed

lemma fold_max_mem: "fold max ys (a::nat) = a \<or> fold max ys a \<in> set ys"
proof (induction ys arbitrary: a)
  case Nil
  show ?case by simp
next
  case (Cons y ys)
  from Cons.IH [of "max y a"] show ?case by (auto simp: max_def split: if_splits)
qed

lemma mode_values_nonempty:
  assumes "xs \<noteq> []"
  shows "mode_values xs \<noteq> []"
proof -
  let ?cs = "map (count_list xs) xs"
  let ?top = "fold max ?cs 0"
  obtain x where x: "x \<in> set xs" using assms by (cases xs) auto
  then have "0 < count_list xs x" by (metis count_list_0_iff gr0I)
  moreover have "count_list xs x \<le> ?top" using fold_max_ge [of 0 ?cs] x by auto
  ultimately have "?top \<noteq> 0" by linarith
  then have "?top \<in> set ?cs" using fold_max_mem [of ?cs 0] by auto
  then obtain v where v: "v \<in> set xs" "count_list xs v = ?top" by auto
  then have "v \<in> set (filter (\<lambda>v. count_list xs v = ?top) (sort (remdups xs)))" by simp
  then show ?thesis unfolding mode_values_def Let_def by (metis empty_iff empty_set)
qed

lemma basic_statistics_returns:
  assumes "df \<noteq> []"
  shows "\<exists>m. basic_statistics df =
     Inr \<lparr> total_entries = length df,
           movies = length (filter (\<lambda>r. Title_Type r = ''Movie'') df),
           tv_series = length (filter (\<lambda>r. Title_Type r = ''TV Series'') df),
           tv_episodes = length (filter (\<lambda>r. Title_Type r = ''TV Episode'') df),
           avg_rating = mean (map (\<lambda>r. real_of_int (Your_Rating r)) df),
           most_common_rating = m,
           imdb_correlation = corr df \<rparr>"
proof -
  have "mode_values (map Your_Rating df) \<noteq> []" using assms mode_values_nonempty by simp
  then obtain m ms where "mode_values (map Your_Rating df) = m # ms" by (cases "mode_values (map Your_Rating df)") auto
  then show ?thesis using assms by (simp add: basic_statistics_def py_div_def)
qed

lemma three_filters_length:
  "length (filter (\<lambda>r. Title_Type r = ''Movie'') df)
     + length (filter (\<lambda>r. Title_Type r = ''TV Series'') df)
     + length (filter (\<lambda>r. Title_Type r = ''TV Episode'') (df :: frame_row list))
   = length (filter (\<lambda>r. Title_Type r \<in> {''Movie'', ''TV Series'', ''TV Episode''}) df)"
  by (induction df) auto

lemma length_filter_all_iff: "length (filter P xs) = length xs \<longleftrightarrow> (\<forall>x \<in> set xs. P x)"
proof (induction xs)
  case Nil
  show ?case by simp
next
  case (Cons x xs)
  have "length (filter P xs) \<le> length xs" by simp
  then show ?case using Cons.IH by (auto simp del: length_filter_le)
qed

subsection \<open>Age buckets\<close>

lemma cut_age:
  "pd_cut age_bins age_labels a =
     (if a \<le> - 1 \<or> 100 < a then None
      else if a \<le> 5 then Some Very_Recent
      else if a \<le> 15 then Some Recent
      else if a \<le> 30 then Some Older
      else if a \<le> 50 then Some Classic
      else Some Very_Classic)"
  by (simp add: age_bins_def age_labels_def)

lemma age_bucket_counts:
  "length (age_bucket df Very_Recent) + length (age_bucket df Recent) + length (age_bucket df Older)
     + length (age_bucket df Classic) + length (age_bucket df Very_Classic)
   = length (filter (\<lambda>r. Age_Group r \<noteq> None) df)"
proof (induction df)
  case Nil
  show ?case by (simp add: age_bucket_def)
next
  case (Cons r df)
  show ?case
  proof (cases "Age_Group r")
    case None
    then show ?thesis using Cons by (simp add: age_bucket_def)
  next
    case (Some l)
    then show ?thesis using Cons by (cases l) (simp_all add: age_bucket_def)
  qed
qed

subsection \<open>Yearly rollup\<close>

lemma yearly_single_std:
  assumes "y \<in> set (yearly_evolution df)" "y_Count y = 1"
  shows "Std_Your_Rating y = None"
proof -
  from assms(1) obtain k where y: "y = yearly_agg df k" by (auto simp: yearly_evolution_def)
  then have "length (year_group df k) = 1" using assms(2) by (simp add: yearly_agg_def Let_def)
  then show ?thesis using y by (simp add: yearly_agg_def Let_def std_def round2_def)
qed

lemma round2_int: "round2 (Some (real_of_int n)) = Some (real_of_int n)"
proof -
  have "real_of_int n * 100 = real_of_int (n * 100)" by simp
  then have "rint (real_of_int n * 100) = n * 100" unfolding rint_def Let_def by (simp only: floor_of_int) simp
  then show ?thesis by (simp add: round2_def)
qed

subsection \<open>Correlation and insights\<close>









subsection \<open>Token matching and the two loops\<close>


















subsection \<open>The token tables\<close>










text \<open>The equations that evaluate the tokens of a frame written out row by row.\<close>

lemmas frame_eval = rated_def load_row_def split_field_def strip_def is_space_def token_list_def
  Counter_def most_common_def

section \<open>The claims\<close>

subsection \<open>C1: the field splitter\<close>

text \<open>
  C1, as the code has it. The splitter of lines 93--96 and 126--129 returns no token for
  an absent or empty field. A non-empty field \<open>s\<close> is cut at every comma: the pieces
  \<open>segs\<close>, joined again by commas, are \<open>s\<close>, none holds a comma, and there is one more
  piece than commas; the tokens are the pieces, stripped, in order. Every token is
  trimmed (stripping it again changes nothing, it neither starts nor ends with white
  space) and holds no comma, but a token may be empty. Nothing is deduplicated: the
  count of a token in the \<^verbatim>\<open>Counter\<close> is the sum, over the records, of the number of
  times the record's field lists it.
\<close>

theorem split_field_trimmed_tokens:
  "split_field None = [] \<and> split_field (Some []) = []
   \<and> (s \<noteq> [] \<longrightarrow>
        (\<exists>segs. split_field (Some s) = map strip segs
               \<and> concat (map ((#) CHR '','') segs) = CHR '','' # s
               \<and> (\<forall>seg \<in> set segs. CHR '','' \<notin> set seg)
               \<and> length segs = Suc (count_list s CHR '','')))
   \<and> (\<forall>t \<in> set (split_field fld).
          strip t = t \<and> CHR '','' \<notin> set t
          \<and> (t = [] \<or> (\<not> is_space (hd t) \<and> \<not> is_space (last t))))
   \<and> map_of (Counter (token_list col)) t
       = (if t \<in> set (token_list col)
          then Some (sum_list (map (\<lambda>f. count_list (split_field f) t) col))
          else None)"
proof -
  have a: "split_field None = [] \<and> split_field (Some []) = []" by (simp add: split_field_def)
  have b: "s \<noteq> [] \<longrightarrow>
        (\<exists>segs. split_field (Some s) = map strip segs
               \<and> concat (map ((#) CHR '','') segs) = CHR '','' # s
               \<and> (\<forall>seg \<in> set segs. CHR '','' \<notin> set seg)
               \<and> length segs = Suc (count_list s CHR '',''))"
  proof
    assume "s \<noteq> []"
    then have "split_field (Some s) = map strip (py_split CHR '','' s)" by (simp add: split_field_def)
    then show "\<exists>segs. split_field (Some s) = map strip segs
               \<and> concat (map ((#) CHR '','') segs) = CHR '','' # s
               \<and> (\<forall>seg \<in> set segs. CHR '','' \<notin> set seg)
               \<and> length segs = Suc (count_list s CHR '','')"
      using py_split_concat [of "CHR '',''" s] py_split_no_sep [of _ "CHR '',''" s] length_py_split [of "CHR '',''" s]
      by blast
  qed
  have c: "\<forall>t \<in> set (split_field fld).
          strip t = t \<and> CHR '','' \<notin> set t
          \<and> (t = [] \<or> (\<not> is_space (hd t) \<and> \<not> is_space (last t)))"
    using split_field_token by blast
  have d: "map_of (Counter (token_list col)) t
       = (if t \<in> set (token_list col)
          then Some (sum_list (map (\<lambda>f. count_list (split_field f) t) col))
          else None)"
    by (simp add: Counter_map_of token_list_def count_list_concat comp_def)
  show ?thesis using a b c d by blast
qed

text \<open>
  The theorem at a field that lists \<open>Drama\<close> twice, in a column of three records: the
  two listings of the first record and the one of the third make a count of 3.
\<close>

theorem split_field_trimmed_tokens_witness:
  "''Drama, Action ,Drama'' \<noteq> []
   \<and> split_field (Some ''Drama, Action ,Drama'') = [''Drama'', ''Action'', ''Drama'']
   \<and> ''Action'' \<in> set (split_field (Some ''Drama, Action ,Drama''))
   \<and> strip ''Action'' = ''Action''
   \<and> map_of (Counter (token_list [Some ''Drama, Action ,Drama'', None, Some ''Drama''])) ''Drama'' = Some 3"
proof -
  have e: "split_field (Some ''Drama, Action ,Drama'') = [''Drama'', ''Action'', ''Drama'']"
    by (simp add: split_field_def strip_def is_space_def)
  have n: "split_field None = []" and e2: "split_field (Some ''Drama'') = [''Drama'']"
    by (simp_all add: split_field_def strip_def is_space_def)
  have m: "''Action'' \<in> set (split_field (Some ''Drama, Action ,Drama''))" by (simp add: e)
  show ?thesis
    using split_field_trimmed_tokens [of "''Drama, Action ,Drama''" "Some ''Drama, Action ,Drama''"
        "[Some ''Drama, Action ,Drama'', None, Some ''Drama'']" "''Drama''"] m
    by (simp add: e n e2 token_list_def)
qed

text \<open>
  C1 as stated fails: an empty piece (two commas in a row, a comma at the end) is kept
  as the empty token.
\<close>

theorem split_field_empty_token_counterexample:
  "split_field (Some ''Drama,, Action,'') = [''Drama'', [], ''Action'', []]"
  by (simp add: split_field_def strip_def is_space_def)

subsection \<open>C2: the two token analyses\<close>




subsection \<open>C3: the field \<open>Nolan, C.\<close>\<close>




subsection \<open>C4: entries and title types\<close>

text \<open>
  C4, as the code has it. On every non-empty frame \<^verbatim>\<open>basic_statistics\<close> returns,
  \<open>total_entries\<close> is the number of rows, and the three counts add up to the number of
  rows whose title type is \<open>Movie\<close>, \<open>TV Series\<close> or \<open>TV Episode\<close>: at most
  \<open>total_entries\<close>, and equal to it exactly when no row has another title type.
\<close>

theorem basic_statistics_title_counts:
  assumes "df \<noteq> []"
  shows "\<exists>st. basic_statistics df = Inr st
           \<and> total_entries st = length df
           \<and> movies st + tv_series st + tv_episodes st
               = length (filter (\<lambda>r. Title_Type r \<in> {''Movie'', ''TV Series'', ''TV Episode''}) df)
           \<and> movies st + tv_series st + tv_episodes st \<le> total_entries st
           \<and> (movies st + tv_series st + tv_episodes st = total_entries st
                \<longleftrightarrow> (\<forall>r \<in> set df. Title_Type r \<in> {''Movie'', ''TV Series'', ''TV Episode''}))"
proof -
  let ?P = "\<lambda>r::frame_row. Title_Type r \<in> {''Movie'', ''TV Series'', ''TV Episode''}"
  obtain st where st: "basic_statistics df = Inr st" "total_entries st = length df"
    "movies st = length (filter (\<lambda>r. Title_Type r = ''Movie'') df)"
    "tv_series st = length (filter (\<lambda>r. Title_Type r = ''TV Series'') df)"
    "tv_episodes st = length (filter (\<lambda>r. Title_Type r = ''TV Episode'') df)"
    using basic_statistics_returns [OF assms] by force
  have sum: "movies st + tv_series st + tv_episodes st = length (filter ?P df)"
    using st three_filters_length [of df] by simp
  have le: "length (filter ?P df) \<le> length df" by simp
  have iff: "length (filter ?P df) = length df \<longleftrightarrow> (\<forall>r \<in> set df. ?P r)"
    by (rule length_filter_all_iff)
  show ?thesis using st sum le iff by auto
qed

text \<open>The theorem on a film and a mini series: two entries, the three counts add up to one.\<close>

theorem basic_statistics_title_counts_witness:
  "[feature_film, mini_series] \<noteq> []
   \<and> (\<exists>st. basic_statistics [feature_film, mini_series] = Inr st
          \<and> total_entries st = 2
          \<and> movies st + tv_series st + tv_episodes st = 1)"
  using basic_statistics_title_counts [of "[feature_film, mini_series]"]
  by (auto simp: feature_film_def mini_series_def)

text \<open>
  C4 as stated fails: a frame of one mini series has one entry and the three counts
  add up to zero.
\<close>

theorem title_type_counts_counterexample:
  "basic_statistics [mini_series] =
     Inr \<lparr> total_entries = 1, movies = 0, tv_series = 0, tv_episodes = 0,
           avg_rating = Some 9, most_common_rating = 9, imdb_correlation = None \<rparr>"
  by (simp add: basic_statistics_def mini_series_def mode_values_def py_div_def mean_def
      corr_def corrcoef_def valid_pairs_def)

subsection \<open>C5: the records behind a token's statistics\<close>

text \<open>
  C5 fails on the code. The statistics of a token are computed over the records whose
  raw field contains the token as a pattern (\<^verbatim>\<open>str.contains\<close>), not over the records
  that list it. Five films of the director \<open>McG\<close>, rated 4, 4, 5, 7 and 7, and one of
  Tom McGrath, rated 9 in 2022: the row of \<open>McG\<close> has the count 5, and the mean 6,
  the deviation 2 and the latest date 2022-06-15 of all six films, while the five
  films that list \<open>McG\<close> have the mean 27/5 and the latest date 2018-05-14. The genre
  report does the same: the mean of \<open>Music\<close> takes in the film whose genre is \<open>Musical\<close>.
\<close>

theorem token_statistics_use_substring_match:
  "director_analysis mcg_six =
     Inr [\<lparr> Director = ''McG'', d_Count = 5, Avg_Rating = Some 6, Std_Rating = Some 2,
            Latest_Work = (2022, 6, 15) \<rparr>]
   \<and> mean (map (\<lambda>r. real_of_int (Your_Rating r))
             (filter (\<lambda>r. ''McG'' \<in> set (split_field (Directors r))) mcg_six)) = Some (27 / 5)
   \<and> date_max (map Date_Rated
             (filter (\<lambda>r. ''McG'' \<in> set (split_field (Directors r))) mcg_six)) = Some (2018, 5, 14)
   \<and> genre_report music_two =
     Inr [\<lparr> Genre = ''Drama'', g_Count = 1, g_percentage = 50, g_avg_rating = Some 8 \<rparr>,
          \<lparr> Genre = ''Music'', g_Count = 1, g_percentage = 50, g_avg_rating = Some 6 \<rparr>,
          \<lparr> Genre = ''Musical'', g_Count = 1, g_percentage = 50, g_avg_rating = Some 4 \<rparr>]"
  by (simp add: director_analysis_def top_directors_def genre_report_def top_genres_def mcg_six_def
      music_two_def frame_eval df_str_contains_def str_accessor_ok_def regex_meta_def py_div_def
      mean_def std_def date_max_def)

subsection \<open>C6: the correlation without platform ratings\<close>



subsection \<open>C7: the age buckets\<close>

text \<open>
  C7, as the code has it. A record whose content age \<open>a\<close> lies in the bins,
  \<open>-1 < a \<le> 100\<close>, gets the label of the interval \<open>(-1,5]\<close>, \<open>(5,15]\<close>, \<open>(15,30]\<close>,
  \<open>(30,50]\<close> or \<open>(50,100]\<close> that holds \<open>a\<close> (so age 5 is in the first bucket and age 6 in
  the second), and is in the bucket of exactly one label. A record with no content age
  has no label and is in no bucket. The rollup has one row per label, in order, whose
  count is the size of the label's bucket, and the counts add up to the number of
  records that have a label.
\<close>

theorem age_buckets_within_bins:
  "(Content_Age r = Some a \<and> - 1 < a \<and> a \<le> 100 \<longrightarrow>
      Age_Group r = Some (if a \<le> 5 then Very_Recent else if a \<le> 15 then Recent
                          else if a \<le> 30 then Older else if a \<le> 50 then Classic
                          else Very_Classic)
      \<and> (r \<in> set df \<longrightarrow> (\<exists>!l. r \<in> set (age_bucket df l))))
   \<and> (Content_Age r = None \<longrightarrow> Age_Group r = None \<and> (\<forall>l. r \<notin> set (age_bucket df l)))
   \<and> map fst (content_age_analysis df) = age_labels
   \<and> (\<forall>l \<in> set age_labels. \<exists>m. (l, length (age_bucket df l), m) \<in> set (content_age_analysis df))
   \<and> sum_list (map (\<lambda>row. fst (snd row)) (content_age_analysis df))
       = length (filter (\<lambda>r. Age_Group r \<noteq> None) df)"
proof -
  have a: "Content_Age r = Some a \<and> - 1 < a \<and> a \<le> 100 \<longrightarrow>
      Age_Group r = Some (if a \<le> 5 then Very_Recent else if a \<le> 15 then Recent
                          else if a \<le> 30 then Older else if a \<le> 50 then Classic
                          else Very_Classic)
      \<and> (r \<in> set df \<longrightarrow> (\<exists>!l. r \<in> set (age_bucket df l)))"
  proof
    assume h: "Content_Age r = Some a \<and> - 1 < a \<and> a \<le> 100"
    then have g: "Age_Group r = Some (if a \<le> 5 then Very_Recent else if a \<le> 15 then Recent
                          else if a \<le> 30 then Older else if a \<le> 50 then Classic
                          else Very_Classic)"
      by (simp add: Age_Group_def cut_age)
    then have "r \<in> set df \<longrightarrow> (\<exists>!l. r \<in> set (age_bucket df l))"
      by (auto simp: age_bucket_def)
    with g show "Age_Group r = Some (if a \<le> 5 then Very_Recent else if a \<le> 15 then Recent
                          else if a \<le> 30 then Older else if a \<le> 50 then Classic
                          else Very_Classic)
      \<and> (r \<in> set df \<longrightarrow> (\<exists>!l. r \<in> set (age_bucket df l)))" by simp
  qed
  have b: "Content_Age r = None \<longrightarrow> Age_Group r = None \<and> (\<forall>l. r \<notin> set (age_bucket df l))"
    by (simp add: Age_Group_def age_bucket_def)
  have c: "map fst (content_age_analysis df) = age_labels"
    by (simp add: content_age_analysis_def comp_def)
  have d: "\<forall>l \<in> set age_labels. \<exists>m. (l, length (age_bucket df l), m) \<in> set (content_age_analysis df)"
    by (auto simp: content_age_analysis_def)
  have e: "sum_list (map (\<lambda>row. fst (snd row)) (content_age_analysis df))
       = length (filter (\<lambda>r. Age_Group r \<noteq> None) df)"
    using age_bucket_counts [of df] by (simp add: content_age_analysis_def age_labels_def)
  show ?thesis using a b c d e by blast
qed

text \<open>
  The theorem on three records rated in 2025: released in 2020 (age 5), in 2019 (age 6),
  and with no release year.
\<close>

theorem age_buckets_within_bins_witness:
  "Content_Age age_5 = Some 5 \<and> Age_Group age_5 = Some Very_Recent
   \<and> Content_Age age_6 = Some 6 \<and> Age_Group age_6 = Some Recent
   \<and> age_6 \<in> set [age_5, age_6, no_age] \<and> (\<exists>!l. age_6 \<in> set (age_bucket [age_5, age_6, no_age] l))
   \<and> Content_Age no_age = None \<and> no_age \<notin> set (age_bucket [age_5, age_6, no_age] Recent)
   \<and> Very_Recent \<in> set age_labels
   \<and> (\<exists>m. (Very_Recent, 1, m) \<in> set (content_age_analysis [age_5, age_6, no_age]))
   \<and> sum_list (map (\<lambda>row. fst (snd row)) (content_age_analysis [age_5, age_6, no_age])) = 2"
proof -
  have 5: "Content_Age age_5 = Some 5" and 6: "Content_Age age_6 = Some 6" and n: "Content_Age no_age = None"
    by (simp_all add: age_5_def age_6_def no_age_def load_row_def nosferatu_def)
  have m: "age_6 \<in> set [age_5, age_6, no_age]" by simp
  have l: "Very_Recent \<in> set age_labels" by (simp add: age_labels_def)
  note t5 = age_buckets_within_bins [of age_5 5 "[age_5, age_6, no_age]"]
  note t6 = age_buckets_within_bins [of age_6 6 "[age_5, age_6, no_age]"]
  note tn = age_buckets_within_bins [of no_age 0 "[age_5, age_6, no_age]"]
  have g5: "Age_Group age_5 = Some Very_Recent" using t5 5 by simp
  have g6: "Age_Group age_6 = Some Recent" using t6 6 by simp
  have u6: "\<exists>!l. age_6 \<in> set (age_bucket [age_5, age_6, no_age] l)" using t6 6 m by simp
  have gn: "Age_Group no_age = None" and xn: "no_age \<notin> set (age_bucket [age_5, age_6, no_age] Recent)"
    using tn n by simp_all
  have s: "sum_list (map (\<lambda>row. fst (snd row)) (content_age_analysis [age_5, age_6, no_age])) = 2"
    using tn by (simp add: g5 g6 gn)
  have "\<exists>m. (Very_Recent, length (age_bucket [age_5, age_6, no_age] Very_Recent), m)
           \<in> set (content_age_analysis [age_5, age_6, no_age])"
    using tn l by blast
  moreover have "length (age_bucket [age_5, age_6, no_age] Very_Recent) = 1"
    by (simp add: age_bucket_def g5 g6 gn)
  ultimately have v: "\<exists>m. (Very_Recent, 1, m) \<in> set (content_age_analysis [age_5, age_6, no_age])"
    by simp
  show ?thesis using 5 6 n m l g5 g6 u6 xn v s by simp
qed

text \<open>
  C7 as stated fails: a film of 1922 has the content age 103 in 2025, a title
  announced for 2026 the content age -1; both ages are defined, and neither record is in
  a bucket.
\<close>

theorem age_bucket_counterexample:
  "content_age_analysis (load_data clock_2025 [nosferatu, preview_title]) =
     [(Very_Recent, 0, None), (Recent, 0, None), (Older, 0, None), (Classic, 0, None),
      (Very_Classic, 0, None)]
   \<and> map Content_Age (load_data clock_2025 [nosferatu, preview_title]) = [Some 103, Some (- 1)]"
proof -
  let ?df = "load_data clock_2025 [nosferatu, preview_title]"
  have ages: "map Content_Age ?df = [Some 103, Some (- 1)]"
    by (simp add: load_data_def load_row_def clock_2025_def nosferatu_def preview_title_def)
  have "map Age_Group ?df = [None, None]"
    by (simp add: load_data_def load_row_def clock_2025_def nosferatu_def preview_title_def
        Age_Group_def cut_age)
  then have "age_bucket ?df l = []" for l
    by (simp add: age_bucket_def load_data_def)
  then have "content_age_analysis ?df =
     [(Very_Recent, 0, None), (Recent, 0, None), (Older, 0, None), (Classic, 0, None),
      (Very_Classic, 0, None)]"
    by (simp add: content_age_analysis_def age_labels_def mean_def round2_def)
  with ages show ?thesis by simp
qed

subsection \<open>C8: the yearly rollup of the example\<close>

text \<open>
  C8. Three records rated 9 on 2020-01-01, 7 on 2020-06-01 and 9 on 2021-01-01, whatever
  their other columns and whatever the clock: the yearly rollup has the rows 2020, with
  count 2 and mean rating 8, and 2021, with count 1, mean rating 9 and the deviation
  NaN. On every frame, a year with a single record has the deviation NaN;
  \<^verbatim>\<open>yearly_evolution\<close> has no failing branch.
\<close>

theorem yearly_rollup_example:
  assumes "Your_Rating r1 = 9" "Date_Rated r1 = (2020, 1, 1)"
      and "Your_Rating r2 = 7" "Date_Rated r2 = (2020, 6, 1)"
      and "Your_Rating r3 = 9" "Date_Rated r3 = (2021, 1, 1)"
  shows "map (\<lambda>y. (yr y, y_Count y, Avg_Your_Rating y)) (yearly_evolution (load_data now [r1, r2, r3]))
           = [(2020, 2, Some 8), (2021, 1, Some 9)]
         \<and> map Std_Your_Rating (filter (\<lambda>y. yr y = 2021) (yearly_evolution (load_data now [r1, r2, r3])))
           = [None]
         \<and> (\<forall>y \<in> set (yearly_evolution df). y_Count y = 1 \<longrightarrow> Std_Your_Rating y = None)"
proof -
  let ?df = "load_data now [r1, r2, r3]"
  have yrs: "map Rating_Year ?df = [2020, 2020, 2021]"
    using assms by (simp add: load_data_def load_row_def)
  have ry: "rating_years ?df = [2020, 2021]"
    unfolding rating_years_def yrs by simp
  have rt: "map Your_Rating ?df = [9, 7, 9]"
    using assms by (simp add: load_data_def load_row_def)
  have g0: "map Your_Rating (year_group ?df 2020) = [9, 7]"
    using yrs rt by (simp add: year_group_def load_data_def)
  have g1: "map Your_Rating (year_group ?df 2021) = [9]"
    using yrs rt by (simp add: year_group_def load_data_def)
  have m0: "map (\<lambda>r. real_of_int (Your_Rating r)) (year_group ?df 2020) = [9, 7]"
    using arg_cong [OF g0, of "map real_of_int"] by (simp add: comp_def)
  have m1: "map (\<lambda>r. real_of_int (Your_Rating r)) (year_group ?df 2021) = [9]"
    using arg_cong [OF g1, of "map real_of_int"] by (simp add: comp_def)
  have l0: "length (year_group ?df 2020) = 2" using arg_cong [OF g0, of length] by simp
  have l1: "length (year_group ?df 2021) = 1" using arg_cong [OF g1, of length] by simp
  have a0: "mean (map (\<lambda>r. real_of_int (Your_Rating r)) (year_group ?df 2020)) = Some 8"
    unfolding m0 by (simp add: mean_def)
  have a1: "mean (map (\<lambda>r. real_of_int (Your_Rating r)) (year_group ?df 2021)) = Some 9"
    unfolding m1 by (simp add: mean_def)
  have s1: "std (map (\<lambda>r. real_of_int (Your_Rating r)) (year_group ?df 2021)) = None"
    unfolding m1 by (simp add: std_def)
  have r8: "round2 (Some 8) = Some 8" using round2_int [of 8] by simp
  have r9: "round2 (Some 9) = Some 9" using round2_int [of 9] by simp
  have a: "map (\<lambda>y. (yr y, y_Count y, Avg_Your_Rating y)) (yearly_evolution ?df)
           = [(2020, 2, Some 8), (2021, 1, Some 9)]"
    by (simp add: yearly_evolution_def ry yearly_agg_def Let_def l0 l1 a0 a1 r8 r9)
  have b: "map Std_Your_Rating (filter (\<lambda>y. yr y = 2021) (yearly_evolution ?df)) = [None]"
    by (simp add: yearly_evolution_def ry yearly_agg_def Let_def s1 round2_def)
  have c: "\<forall>y \<in> set (yearly_evolution df). y_Count y = 1 \<longrightarrow> Std_Your_Rating y = None"
    using yearly_single_std by blast
  show ?thesis using a b c by blast
qed

text \<open>
  The theorem on the three records of the example, completed with a title type, a
  release year, genres and directors.
\<close>

theorem yearly_rollup_example_witness:
  "map (\<lambda>y. (yr y, y_Count y, Avg_Your_Rating y)) (yearly_evolution (load_data clock_2025 three_ratings))
     = [(2020, 2, Some 8), (2021, 1, Some 9)]
   \<and> map Std_Your_Rating (filter (\<lambda>y. yr y = 2021) (yearly_evolution (load_data clock_2025 three_ratings)))
     = [None]
   \<and> yearly_agg (load_data clock_2025 three_ratings) 2021 \<in> set (yearly_evolution (load_data clock_2025 three_ratings))
   \<and> y_Count (yearly_agg (load_data clock_2025 three_ratings) 2021) = 1
   \<and> Std_Your_Rating (yearly_agg (load_data clock_2025 three_ratings) 2021) = None"
proof -
  let ?r1 = "three_ratings ! 0" and ?r2 = "three_ratings ! 1" and ?r3 = "three_ratings ! 2"
  have rows: "three_ratings = [?r1, ?r2, ?r3]" by (simp add: three_ratings_def)
  note t = yearly_rollup_example [of ?r1 ?r2 ?r3 clock_2025 "load_data clock_2025 three_ratings"]
  have h: "map (\<lambda>y. (yr y, y_Count y, Avg_Your_Rating y)) (yearly_evolution (load_data clock_2025 [?r1, ?r2, ?r3]))
           = [(2020, 2, Some 8), (2021, 1, Some 9)]
         \<and> map Std_Your_Rating (filter (\<lambda>y. yr y = 2021) (yearly_evolution (load_data clock_2025 [?r1, ?r2, ?r3])))
           = [None]
         \<and> (\<forall>y \<in> set (yearly_evolution (load_data clock_2025 three_ratings)). y_Count y = 1 \<longrightarrow> Std_Your_Rating y = None)"
    by (rule t) (simp_all add: three_ratings_def)
  have yrs: "rating_years (load_data clock_2025 three_ratings) = [2020, 2021]"
    by (simp add: rating_years_def load_data_def load_row_def three_ratings_def)
  have mem: "yearly_agg (load_data clock_2025 three_ratings) 2021 \<in> set (yearly_evolution (load_data clock_2025 three_ratings))"
    by (simp add: yearly_evolution_def yrs)
  have cnt: "y_Count (yearly_agg (load_data clock_2025 three_ratings) 2021) = 1"
    by (simp add: yearly_agg_def Let_def year_group_def load_data_def load_row_def three_ratings_def)
  show ?thesis using h mem cnt rows by auto
qed

subsection \<open>C9: the empty frame\<close>

text \<open>
  C9 fails on the code. A file with a header and no record loads as the empty frame.
  There \<^verbatim>\<open>basic_statistics\<close> raises \<open>IndexError\<close> at \<^verbatim>\<open>mode().iloc[0]\<close>, before any
  correlation is reported, and \<^verbatim>\<open>rating_patterns\<close> divides by \<^verbatim>\<open>len(self.df)\<close> and
  raises \<open>ZeroDivisionError\<close>, so the run ends with the first exception; the shares of
  \<^verbatim>\<open>create_visualizations\<close> are the only guarded ones, and give 0 for an empty group.
\<close>

theorem empty_frame_raises:
  "load_data now [] = []
   \<and> basic_statistics (load_data now []) = Inl IndexError
   \<and> rating_patterns (load_data now []) = Inl ZeroDivisionError
   \<and> run_complete_analysis now [] = Inl IndexError
   \<and> guarded_pct 0 0 = Inr 0"
  by (simp add: load_data_def basic_statistics_def mode_values_def rating_patterns_def
      rating_patterns_report_def rating_dist_def py_div_def run_complete_analysis_def
      guarded_pct_def)

subsection \<open>C10: the clock\<close>



end
